theory Spec2Isabelle
  imports Main
begin

section \<open>The TypeScript plugin of the Svelte language server\<close>

text \<open>
  A shallow embedding of \<^verbatim>\<open>src/plugins/TypeScriptPlugin.ts\<close>: the four query operations
  of the plugin (diagnostics, hover, document symbols, completions), the registration
  hook and the virtual-document factory it installs. The analysis engine (the
  TypeScript language service), the host and the helper modules the file imports are
  not part of the file; they appear as records of functions, and every call the plugin
  makes into the factory or the engine is written to a call log that the operations
  thread through.
\<close>

subsection \<open>Host-side data (the protocol types re-exported by \<^verbatim>\<open>../api\<close>)\<close>

record position =
  line :: nat
  character :: nat

text \<open>
  Modelled from the spec: \<^verbatim>\<open>Range.create(start, end)\<close> comes from \<^verbatim>\<open>../api\<close>, which is not among
  the sources. The spec's range is a start and an end position in host document space.
\<close>

record range =
  range_start :: position
  range_end :: position

datatype diagnostic_severity = Error | Warning | Information | Hint

record diagnostic =
  diag_range :: range
  severity :: diagnostic_severity
  source :: string
  message :: string

record marked_string =
  language :: string
  ms_value :: string

record hover =
  hover_range :: range
  contents :: marked_string

record location =
  loc_uri :: string
  loc_range :: range

record symbol_information =
  name :: string
  kind :: nat
  location :: location
  containerName :: "string option"

record completion_item =
  label :: string
  item_kind :: nat
  item_sortText :: string
  commitCharacters :: "string list option"
  preselect :: "bool option"

record text_document_item =
  languageId :: string
  item_text :: string
  uri :: string
  version :: nat

text \<open>
  A host document is used through five of its methods only. \<^verbatim>\<open>getFilePath()\<close> may be
  absent (the source writes \<^verbatim>\<open>getFilePath()!\<close>, an assertion of the type checker that
  does nothing when the program runs), so the engine is handed an optional path.
\<close>

record document =
  getFilePath :: "string option"
  offsetAt :: "position \<Rightarrow> int"
  positionAt :: "int \<Rightarrow> position"
  getAttributes :: "(string \<times> string) list"
  getURL :: string

subsection \<open>Engine-side data (the types of the \<^verbatim>\<open>typescript\<close> package the plugin reads)\<close>

datatype script_kind = Unknown | JS | JSX | TS | TSX | External | JSON | Deferred

datatype diagnostic_category = CategoryWarning | CategoryError | CategorySuggestion | CategoryMessage

datatype message_text = MessageString string | MessageChain string "message_text list"

record ts_diagnostic =
  diag_start :: "int option"
  diag_length :: "int option"
  messageText :: message_text
  category :: diagnostic_category
  code :: int

record text_span =
  span_start :: int
  span_length :: int

record display_part =
  part_text :: string
  part_kind :: string

record quick_info =
  textSpan :: text_span
  displayParts :: "display_part list option"

text \<open>
  A node of the navigation tree: its display name (\<^verbatim>\<open>text\<close>), its kind, its spans and its
  optional children (\<^verbatim>\<open>childItems?\<close>).
\<close>

datatype navigation_tree =
  NavigationTree (nav_text: string) (nav_kind: string) (spans: "text_span list")
    (childItems: "navigation_tree list option")

record completion_entry =
  entry_name :: string
  entry_kind :: string
  sortText :: string
  isRecommended :: "bool option"

record completion_info =
  entries :: "completion_entry list"

record completions_options =
  includeCompletionsForModuleExports :: bool
  triggerCharacter :: "string option"

record language_service =
  getSyntacticDiagnostics :: "string option \<Rightarrow> ts_diagnostic list"
  getSemanticDiagnostics :: "string option \<Rightarrow> ts_diagnostic list"
  getQuickInfoAtPosition :: "string option \<Rightarrow> int \<Rightarrow> quick_info option"
  getNavigationTree :: "string option \<Rightarrow> navigation_tree"
  getCompletionsAtPosition ::
    "string option \<Rightarrow> int \<Rightarrow> completions_options \<Rightarrow> completion_info option"

subsection \<open>JavaScript values\<close>

datatype error = TypeError

text \<open>An array read \<^verbatim>\<open>xs[i]\<close> is \<^verbatim>\<open>undefined\<close> outside the array.\<close>

definition js_index :: "'a list \<Rightarrow> int \<Rightarrow> 'a option" where
  "js_index xs i = (if 0 \<le> i \<and> i < int (length xs) then Some (xs ! nat i) else None)"

text \<open>\<^verbatim>\<open>xs.slice(1)\<close>: the array without its first element.\<close>

definition slice1 :: "'a list \<Rightarrow> 'a list" where
  "slice1 xs = drop 1 xs"

text \<open>The truth value of a configuration read: \<^verbatim>\<open>undefined\<close> and \<^verbatim>\<open>false\<close> are falsy.\<close>

definition truthy :: "bool option \<Rightarrow> bool" where
  "truthy v = (case v of None \<Rightarrow> False | Some b \<Rightarrow> b)"

subsection \<open>What the plugin imports\<close>

text \<open>
  The helpers of \<^verbatim>\<open>./typescript/utils\<close> and \<^verbatim>\<open>./typescript/service\<close>, the two functions of the
  \<^verbatim>\<open>typescript\<close> namespace the plugin calls and \<^verbatim>\<open>URL.file(_).toString()\<close> are not among the
  sources: they are parameters of the model, collected in one record.
  \<^item> \<open>convertRange\<close> receives the document and the \<^verbatim>\<open>start\<close> and \<^verbatim>\<open>length\<close> of the object it is
    given (an engine diagnostic, where both may be absent, or a text span).
  \<^item> \<open>serviceOf\<close> is the language service that \<^verbatim>\<open>getLanguageServiceForDocument\<close> answers with
    for a document, and \<open>serviceCreates\<close> the \<open>(fileName, content)\<close> pairs with which it invokes
    the \<^verbatim>\<open>createDocument\<close> callback it is handed while doing so (none when it reuses a service).
\<close>

record modules =
  convertRange :: "document \<Rightarrow> int option \<Rightarrow> int option \<Rightarrow> range"
  getScriptKindFromAttributes :: "(string \<times> string) list \<Rightarrow> script_kind"
  symbolKindFromString :: "string \<Rightarrow> nat"
  scriptElementKindToCompletionItemKind :: "string \<Rightarrow> nat"
  getCommitCharactersForScriptElement :: "string \<Rightarrow> string list option"
  flattenDiagnosticMessageText :: "message_text \<Rightarrow> string \<Rightarrow> string"
  displayPartsToString :: "display_part list option \<Rightarrow> string"
  file_uri :: "string \<Rightarrow> string"
  serviceOf :: "document \<Rightarrow> language_service"
  serviceCreates :: "document \<Rightarrow> (string \<times> string) list"

subsection \<open>The host and the call log\<close>

text \<open>
  \<^verbatim>\<open>host.getConfig<boolean>(key)\<close> reads a flag (absent when the key is not configured) and
  \<^verbatim>\<open>host.openDocument\<close> answers with a document; \<^verbatim>\<open>host.lockDocument\<close> returns nothing.
\<close>

record host =
  getConfig :: "string \<Rightarrow> bool option"
  openDocument :: "text_document_item \<Rightarrow> document"

text \<open>
  One entry per call into the virtual-document factory (the two host calls it makes), into
  the service lookup, into the engine, and to the console.
\<close>

datatype event =
    Call_openDocument text_document_item
  | Call_lockDocument string
  | Call_getLanguageServiceForDocument "string option"
  | Call_getSyntacticDiagnostics "string option"
  | Call_getSemanticDiagnostics "string option"
  | Call_getQuickInfoAtPosition "string option" int
  | Call_getNavigationTree "string option"
  | Call_getCompletionsAtPosition "string option" int completions_options
  | Call_console_log "completion_info option"

text \<open>
  The plugin object: \<^verbatim>\<open>this.host\<close> is unset until \<^verbatim>\<open>onRegister\<close> runs. \<^verbatim>\<open>this.createDocument\<close> is
  set by the same call to a closure over the host, so the model derives it from the host.
\<close>

record plugin =
  this_host :: "host option"

definition onRegister :: "host \<Rightarrow> plugin \<Rightarrow> plugin" where
  "onRegister h this = this\<lparr>this_host := Some h\<rparr>"

text \<open>The closure installed by \<^verbatim>\<open>onRegister\<close> (lines 52-62): the virtual-document factory.\<close>

definition createDocument ::
  "modules \<Rightarrow> host \<Rightarrow> string \<Rightarrow> string \<Rightarrow> event list \<Rightarrow> document \<times> event list" where
  "createDocument im h fileName content log =
     (let uri' = file_uri im fileName;
          item = \<lparr>languageId = [], item_text = content, uri = uri', version = 0\<rparr>;
          document = openDocument h item;
          log1 = log @ [Call_openDocument item];
          log2 = log1 @ [Call_lockDocument uri']
      in (document, log2))"

text \<open>
  The service lookup: it is logged, and the factory callback runs once for each virtual
  document the lookup asks for.
\<close>

definition getLanguageServiceForDocument ::
  "modules \<Rightarrow> document \<Rightarrow> (string \<Rightarrow> string \<Rightarrow> event list \<Rightarrow> document \<times> event list)
     \<Rightarrow> event list \<Rightarrow> language_service \<times> event list" where
  "getLanguageServiceForDocument im document create log =
     (serviceOf im document,
      foldl (\<lambda>l (fileName, content). snd (create fileName content l))
        (log @ [Call_getLanguageServiceForDocument (getFilePath document)])
        (serviceCreates im document))"

text \<open>The engine's answers come from the service record; the call is logged.\<close>

definition call_getSyntacticDiagnostics ::
  "language_service \<Rightarrow> string option \<Rightarrow> event list \<Rightarrow> ts_diagnostic list \<times> event list" where
  "call_getSyntacticDiagnostics lang fileName log =
     (getSyntacticDiagnostics lang fileName, log @ [Call_getSyntacticDiagnostics fileName])"

definition call_getSemanticDiagnostics ::
  "language_service \<Rightarrow> string option \<Rightarrow> event list \<Rightarrow> ts_diagnostic list \<times> event list" where
  "call_getSemanticDiagnostics lang fileName log =
     (getSemanticDiagnostics lang fileName, log @ [Call_getSemanticDiagnostics fileName])"

definition call_getQuickInfoAtPosition ::
  "language_service \<Rightarrow> string option \<Rightarrow> int \<Rightarrow> event list \<Rightarrow> quick_info option \<times> event list" where
  "call_getQuickInfoAtPosition lang fileName pos log =
     (getQuickInfoAtPosition lang fileName pos, log @ [Call_getQuickInfoAtPosition fileName pos])"

definition call_getNavigationTree ::
  "language_service \<Rightarrow> string option \<Rightarrow> event list \<Rightarrow> navigation_tree \<times> event list" where
  "call_getNavigationTree lang fileName log =
     (getNavigationTree lang fileName, log @ [Call_getNavigationTree fileName])"

definition call_getCompletionsAtPosition ::
  "language_service \<Rightarrow> string option \<Rightarrow> int \<Rightarrow> completions_options \<Rightarrow> event list
     \<Rightarrow> completion_info option \<times> event list" where
  "call_getCompletionsAtPosition lang fileName pos options log =
     (getCompletionsAtPosition lang fileName pos options,
      log @ [Call_getCompletionsAtPosition fileName pos options])"

subsection \<open>Diagnostics (lines 65-86)\<close>

text \<open>
  An operation takes the call log and returns its result, or the error it raises, with
  the log extended by the calls it made. Reading \<^verbatim>\<open>this.host.getConfig\<close> on a plugin that was
  never registered raises a \<^verbatim>\<open>TypeError\<close>. In \<open>getDiagnostics\<close> the semantic diagnostics are
  pushed onto the array of the syntactic ones, which nothing else reads: the model
  appends the lists.
\<close>

definition getDiagnostics ::
  "modules \<Rightarrow> plugin \<Rightarrow> document \<Rightarrow> event list \<Rightarrow> (error + diagnostic list) \<times> event list" where
  "getDiagnostics im this document log =
     (case this_host this of
        None \<Rightarrow> (Inl TypeError, log)
      | Some h \<Rightarrow>
          if \<not> truthy (getConfig h ''typescript.diagnostics.enable'') then (Inr [], log)
          else
            let (lang, log1) = getLanguageServiceForDocument im document (createDocument im h) log;
                isTypescript = (getScriptKindFromAttributes im (getAttributes document) = TS);
                (diagnostics, log2) = call_getSyntacticDiagnostics lang (getFilePath document) log1;
                (diagnostics', log3) =
                  (if isTypescript then
                     let (semantic, log') =
                           call_getSemanticDiagnostics lang (getFilePath document) log2
                     in (diagnostics @ semantic, log')
                   else (diagnostics, log2))
            in (Inr (map (\<lambda>diagnostic.
                       \<lparr>diag_range = convertRange im document (diag_start diagnostic)
                                      (diag_length diagnostic),
                        severity = Error,
                        source = (if isTypescript then ''ts'' else ''js''),
                        message = flattenDiagnosticMessageText im (messageText diagnostic)
                                    [CHR 0x0A]\<rparr>)
                     diagnostics'),
                log3))"

subsection \<open>Hover (lines 88-106)\<close>

definition doHover ::
  "modules \<Rightarrow> plugin \<Rightarrow> document \<Rightarrow> position \<Rightarrow> event list \<Rightarrow> (error + hover option) \<times> event list" where
  "doHover im this document position log =
     (case this_host this of
        None \<Rightarrow> (Inl TypeError, log)
      | Some h \<Rightarrow>
          if \<not> truthy (getConfig h ''typescript.hover.enable'') then (Inr None, log)
          else
            let (lang, log1) = getLanguageServiceForDocument im document (createDocument im h) log;
                (info, log2) =
                  call_getQuickInfoAtPosition lang (getFilePath document)
                    (offsetAt document position) log1
            in (case info of
                  None \<Rightarrow> (Inr None, log2)
                | Some info' \<Rightarrow>
                    let contents' = displayPartsToString im (displayParts info')
                    in (Inr (Some
                         \<lparr>hover_range = convertRange im document
                                          (Some (span_start (textSpan info')))
                                          (Some (span_length (textSpan info'))),
                          contents = \<lparr>language = ''ts'', ms_value = contents'\<rparr>\<rparr>),
                        log2)))"

subsection \<open>Document symbols (lines 108-155)\<close>

text \<open>
  Modelled from the spec: \<^verbatim>\<open>SymbolInformation.create\<close> is re-exported by \<^verbatim>\<open>../api\<close>, which is
  not among the sources. The spec's symbol record is \<open>{name, kind, range, containing-symbol
  name or none}\<close>, built from the arguments as they are given.
\<close>

definition SymbolInformation_create ::
  "string \<Rightarrow> nat \<Rightarrow> range \<Rightarrow> string \<Rightarrow> string option \<Rightarrow> symbol_information" where
  "SymbolInformation_create n k r u container =
     \<lparr>name = n, kind = k, location = \<lparr>loc_uri = u, loc_range = r\<rparr>, containerName = container\<rparr>"

text \<open>
  \<^verbatim>\<open>collectSymbols(tree, container, cb)\<close> with \<^verbatim>\<open>cb\<close> pushing onto the array \<^verbatim>\<open>symbols\<close>: the model
  returns the records in the order of the pushes. \<^verbatim>\<open>start && end\<close> holds when both array reads
  give a span.
\<close>

fun collectSymbols ::
  "modules \<Rightarrow> document \<Rightarrow> navigation_tree \<Rightarrow> string option \<Rightarrow> symbol_information list" where
  "collectSymbols im document (NavigationTree text' kind' spans' childItems') container =
     (let start = js_index spans' 0;
          end' = js_index spans' (int (length spans') - 1)
      in (case (start, end') of
            (Some s, Some e) \<Rightarrow>
              [SymbolInformation_create text' (symbolKindFromString im kind')
                 \<lparr>range_start = positionAt document (span_start s),
                  range_end = positionAt document (span_start e + span_length e)\<rparr>
                 (getURL document) container]
          | _ \<Rightarrow> [])
         @ (case childItems' of
              None \<Rightarrow> []
            | Some children \<Rightarrow>
                concat (map (\<lambda>child. collectSymbols im document child (Some text')) children)))"

text \<open>
  \<^verbatim>\<open>symbols[0].name\<close> on an empty array reads a property of \<^verbatim>\<open>undefined\<close>: a \<^verbatim>\<open>TypeError\<close>.
\<close>

definition getDocumentSymbols ::
  "modules \<Rightarrow> plugin \<Rightarrow> document \<Rightarrow> event list
     \<Rightarrow> (error + symbol_information list) \<times> event list" where
  "getDocumentSymbols im this document log =
     (case this_host this of
        None \<Rightarrow> (Inl TypeError, log)
      | Some h \<Rightarrow>
          if \<not> truthy (getConfig h ''typescript.documentSymbols.enable'') then (Inr [], log)
          else
            let (lang, log1) = getLanguageServiceForDocument im document (createDocument im h) log;
                (navTree, log2) = call_getNavigationTree lang (getFilePath document) log1;
                symbols = collectSymbols im document navTree None
            in (case js_index symbols 0 of
                  None \<Rightarrow> (Inl TypeError, log2)
                | Some first \<Rightarrow>
                    let topContainerName = name first
                    in (Inr (map (\<lambda>symbol.
                               if containerName symbol = Some topContainerName
                               then symbol\<lparr>containerName := Some ''script''\<rparr>
                               else symbol)
                             (slice1 symbols)),
                        log2)))"

subsection \<open>Completions (lines 157-190)\<close>

definition getCompletions ::
  "modules \<Rightarrow> plugin \<Rightarrow> document \<Rightarrow> position \<Rightarrow> string option \<Rightarrow> event list
     \<Rightarrow> (error + completion_item list) \<times> event list" where
  "getCompletions im this document position triggerCharacter' log =
     (case this_host this of
        None \<Rightarrow> (Inl TypeError, log)
      | Some h \<Rightarrow>
          if \<not> truthy (getConfig h ''typescript.completions.enable'') then (Inr [], log)
          else
            let (lang, log1) = getLanguageServiceForDocument im document (createDocument im h) log;
                (completions, log2) =
                  call_getCompletionsAtPosition lang (getFilePath document)
                    (offsetAt document position)
                    \<lparr>includeCompletionsForModuleExports = True,
                     triggerCharacter = triggerCharacter'\<rparr>
                    log1;
                log3 = log2 @ [Call_console_log completions]
            in (case completions of
                  None \<Rightarrow> (Inr [], log3)
                | Some completions' \<Rightarrow>
                    (Inr (map (\<lambda>comp.
                            \<lparr>label = entry_name comp,
                             item_kind = scriptElementKindToCompletionItemKind im (entry_kind comp),
                             item_sortText = sortText comp,
                             commitCharacters =
                               getCommitCharactersForScriptElement im (entry_kind comp),
                             preselect = isRecommended comp\<rparr>)
                          (entries completions')),
                     log3)))"

subsection \<open>Notions the properties are stated with\<close>

text \<open>The log entries of one run of the virtual-document factory, and of one service lookup.\<close>

definition factory_events :: "modules \<Rightarrow> string \<times> string \<Rightarrow> event list" where
  "factory_events im request =
     [Call_openDocument \<lparr>languageId = [], item_text = snd request,
                          uri = file_uri im (fst request), version = 0\<rparr>,
      Call_lockDocument (file_uri im (fst request))]"

definition service_events :: "modules \<Rightarrow> document \<Rightarrow> event list" where
  "service_events im document =
     Call_getLanguageServiceForDocument (getFilePath document)
       # concat (map (factory_events im) (serviceCreates im document))"

text \<open>
  The engine diagnostics of a document that the diagnostics operation maps: the syntactic
  ones, followed by the semantic ones when the script kind is \<open>TS\<close>.
\<close>

definition requested_diagnostics :: "modules \<Rightarrow> document \<Rightarrow> ts_diagnostic list" where
  "requested_diagnostics im document =
     getSyntacticDiagnostics (serviceOf im document) (getFilePath document)
       @ (if getScriptKindFromAttributes im (getAttributes document) = TS
          then getSemanticDiagnostics (serviceOf im document) (getFilePath document)
          else [])"

text \<open>A tree without a span at any level.\<close>

fun no_spans :: "navigation_tree \<Rightarrow> bool" where
  "no_spans (NavigationTree text' kind' spans' childItems') =
     (spans' = [] \<and> (case childItems' of None \<Rightarrow> True | Some children \<Rightarrow> \<forall>c \<in> set children. no_spans c))"

text \<open>
  The traversal in the spec's words: the nodes of a tree in pre-order, each with the
  display name of its parent (the given container for the root), and the record emitted
  for a node that has a span: from the start of its first span to the end of its last.
\<close>

fun preorder :: "navigation_tree \<Rightarrow> string option \<Rightarrow> (navigation_tree \<times> string option) list" where
  "preorder (NavigationTree text' kind' spans' childItems') parent =
     (NavigationTree text' kind' spans' childItems', parent)
       # (case childItems' of
            None \<Rightarrow> []
          | Some children \<Rightarrow> concat (map (\<lambda>child. preorder child (Some text')) children))"

definition has_span :: "navigation_tree \<times> string option \<Rightarrow> bool" where
  "has_span node = (spans (fst node) \<noteq> [])"

definition emitted_record ::
  "modules \<Rightarrow> document \<Rightarrow> navigation_tree \<times> string option \<Rightarrow> symbol_information" where
  "emitted_record im document node =
     \<lparr>name = nav_text (fst node),
      kind = symbolKindFromString im (nav_kind (fst node)),
      location =
        \<lparr>loc_uri = getURL document,
         loc_range =
           \<lparr>range_start = positionAt document (span_start (hd (spans (fst node)))),
            range_end = positionAt document
              (span_start (last (spans (fst node))) + span_length (last (spans (fst node))))\<rparr>\<rparr>,
      containerName = snd node\<rparr>"

text \<open>The children of a node, none when \<^verbatim>\<open>childItems\<close> is absent.\<close>

definition children_of :: "navigation_tree \<Rightarrow> navigation_tree list" where
  "children_of tree = (case childItems tree of None \<Rightarrow> [] | Some children \<Rightarrow> children)"

text \<open>The re-parenting step of the post-processing, for a given name of the first record.\<close>

definition reparent :: "string \<Rightarrow> symbol_information \<Rightarrow> symbol_information" where
  "reparent topContainerName symbol =
     (if containerName symbol = Some topContainerName then symbol\<lparr>containerName := Some ''script''\<rparr> else symbol)"

subsection \<open>A concrete host, engine and document\<close>

definition ex_host :: "bool \<Rightarrow> host" where
  "ex_host enabled =
     \<lparr>getConfig = (\<lambda>key. Some enabled),
      openDocument = (\<lambda>item.
        \<lparr>getFilePath = Some (uri item), offsetAt = (\<lambda>p. int (character p)),
         positionAt = (\<lambda>off. \<lparr>line = 0, character = nat off\<rparr>), getAttributes = [],
         getURL = uri item\<rparr>)\<rparr>"

definition ex_plugin :: "bool \<Rightarrow> plugin" where
  "ex_plugin enabled = onRegister (ex_host enabled) \<lparr>this_host = None\<rparr>"

definition ex_document :: "(string \<times> string) list \<Rightarrow> document" where
  "ex_document attributes =
     \<lparr>getFilePath = Some ''/App.svelte'', offsetAt = (\<lambda>p. int (character p)),
      positionAt = (\<lambda>off. \<lparr>line = 0, character = nat off\<rparr>), getAttributes = attributes,
      getURL = ''file:///App.svelte''\<rparr>"

definition ex_service :: "navigation_tree \<Rightarrow> language_service" where
  "ex_service tree =
     \<lparr>getSyntacticDiagnostics = (\<lambda>f.
        [\<lparr>diag_start = Some 0, diag_length = Some 1, messageText = MessageString ''; expected'',
          category = CategoryWarning, code = 1005\<rparr>]),
      getSemanticDiagnostics = (\<lambda>f.
        [\<lparr>diag_start = Some 2, diag_length = Some 3, messageText = MessageString ''no such name'',
          category = CategorySuggestion, code = 2304\<rparr>]),
      getQuickInfoAtPosition = (\<lambda>f off.
        if off = 4 then
          Some \<lparr>textSpan = \<lparr>span_start = 4, span_length = 3\<rparr>,
                displayParts = Some [\<lparr>part_text = ''let '', part_kind = ''keyword''\<rparr>,
                                     \<lparr>part_text = ''foo'', part_kind = ''localName''\<rparr>]\<rparr>
        else None),
      getNavigationTree = (\<lambda>f. tree),
      getCompletionsAtPosition = (\<lambda>f off options.
        if off = 4 then
          Some \<lparr>entries = [\<lparr>entry_name = ''foo'', entry_kind = ''method'', sortText = ''0'',
                            isRecommended = Some True\<rparr>]\<rparr>
        else None)\<rparr>"

definition ex_modules :: "navigation_tree \<Rightarrow> modules" where
  "ex_modules tree =
     \<lparr>convertRange = (\<lambda>document start len.
        \<lparr>range_start = positionAt document (case start of None \<Rightarrow> 0 | Some s \<Rightarrow> s),
         range_end = positionAt document
           ((case start of None \<Rightarrow> 0 | Some s \<Rightarrow> s) + (case len of None \<Rightarrow> 0 | Some l \<Rightarrow> l))\<rparr>),
      getScriptKindFromAttributes = (\<lambda>attributes.
        if map_of attributes ''lang'' = Some ''typescript'' then TS else JS),
      symbolKindFromString = (\<lambda>k. if k = ''module'' then 2 else if k = ''class'' then 5 else 13),
      scriptElementKindToCompletionItemKind = (\<lambda>k. if k = ''method'' then 2 else 6),
      getCommitCharactersForScriptElement = (\<lambda>k.
        if k = ''method'' then Some [''.'', '','', ''(''] else None),
      flattenDiagnosticMessageText = (\<lambda>m newLine.
        case m of MessageString s \<Rightarrow> s | MessageChain s next \<Rightarrow> s),
      displayPartsToString = (\<lambda>parts.
        case parts of None \<Rightarrow> [] | Some ps \<Rightarrow> concat (map part_text ps)),
      file_uri = (\<lambda>fileName. ''file://'' @ fileName),
      serviceOf = (\<lambda>document. ex_service tree),
      serviceCreates = (\<lambda>document. [(''/App.svelte.ts'', ''let foo = 1'')])\<rparr>"

text \<open>The tree of the spec's re-parenting example, and trees without a span on the root.\<close>

definition ex_tree_RAB :: navigation_tree where
  "ex_tree_RAB =
     NavigationTree ''R'' ''module'' [\<lparr>span_start = 0, span_length = 9\<rparr>]
       (Some [NavigationTree ''A'' ''class'' [\<lparr>span_start = 0, span_length = 5\<rparr>]
                (Some [NavigationTree ''B'' ''method'' [\<lparr>span_start = 1, span_length = 2\<rparr>] None])])"

definition ex_tree_spanless_root :: navigation_tree where
  "ex_tree_spanless_root =
     NavigationTree ''R'' ''module'' []
       (Some [NavigationTree ''A'' ''class'' [\<lparr>span_start = 0, span_length = 5\<rparr>]
                (Some [NavigationTree ''B'' ''method'' [\<lparr>span_start = 1, span_length = 2\<rparr>] None])])"

definition ex_tree_no_spans :: navigation_tree where
  "ex_tree_no_spans =
     NavigationTree ''R'' ''module'' [] (Some [NavigationTree ''A'' ''class'' [] None])"

section \<open>Properties\<close>

subsection \<open>Auxiliary facts\<close>

lemma createDocument_log:
  "snd (createDocument im h fileName content log) = log @ factory_events im (fileName, content)"
  by (simp add: createDocument_def factory_events_def Let_def)

lemma service_lookup_creates:
  "foldl (\<lambda>l (fileName, content). snd (createDocument im h fileName content l)) log requests
     = log @ concat (map (factory_events im) requests)"
  by (induction requests arbitrary: log) (simp_all add: createDocument_log split_def)

lemma getLanguageServiceForDocument_eq:
  "getLanguageServiceForDocument im document (createDocument im h) log
     = (serviceOf im document, log @ service_events im document)"
  by (simp add: getLanguageServiceForDocument_def service_events_def service_lookup_creates)

lemma js_index_first: "js_index xs 0 = (case xs of [] \<Rightarrow> None | x # _ \<Rightarrow> Some x)"
  by (cases xs) (simp_all add: js_index_def)

lemma js_index_last:
  "js_index xs (int (length xs) - 1) = (if xs = [] then None else Some (last xs))"
  by (cases xs rule: rev_cases) (simp_all add: js_index_def nth_append)

lemma collectSymbols_step:
  "collectSymbols im document tree container =
     (if spans tree = [] then [] else [emitted_record im document (tree, container)])
       @ concat (map (\<lambda>child. collectSymbols im document child (Some (nav_text tree)))
                   (children_of tree))"
  by (cases tree)
    (auto simp add: js_index_first js_index_last emitted_record_def SymbolInformation_create_def
      children_of_def split: list.splits option.splits)

lemma preorder_step:
  "preorder tree parent =
     (tree, parent) # concat (map (\<lambda>child. preorder child (Some (nav_text tree))) (children_of tree))"
  by (cases tree) (simp add: children_of_def split: option.splits)

lemma collectSymbols_preorder:
  "collectSymbols im document tree container =
     map (emitted_record im document) (filter has_span (preorder tree container))"
proof (induction tree arbitrary: container)
  case (NavigationTree text' kind' spans' childItems')
  let ?tree = "NavigationTree text' kind' spans' childItems'"
  have children:
    "map (\<lambda>child. collectSymbols im document child (Some text')) (children_of ?tree) =
     map (\<lambda>child. map (emitted_record im document) (filter has_span (preorder child (Some text'))))
       (children_of ?tree)"
    by (rule map_cong) (auto simp: children_of_def NavigationTree.IH split: option.splits)
  have "collectSymbols im document ?tree container =
        (if spans' = [] then [] else [emitted_record im document (?tree, container)])
          @ concat (map (\<lambda>child. collectSymbols im document child (Some text')) (children_of ?tree))"
    using collectSymbols_step [of im document ?tree container] by simp
  moreover have "preorder ?tree container =
        (?tree, container) # concat (map (\<lambda>child. preorder child (Some text')) (children_of ?tree))"
    using preorder_step [of ?tree container] by simp
  moreover have "has_span (?tree, container) = (spans' \<noteq> [])"
    by (simp add: has_span_def)
  ultimately show ?case
    by (simp add: children map_concat filter_concat comp_def
        del: collectSymbols.simps preorder.simps)
qed

lemma collectSymbols_no_spans: "no_spans tree \<Longrightarrow> collectSymbols im document tree container = []"
proof (induction im document tree container rule: collectSymbols.induct)
  case (1 im document text' kind' spans' childItems' container)
  then show ?case
    by (auto simp: js_index_def split: option.splits)
qed

lemma getDocumentSymbols_eq:
  assumes "this_host this = Some h"
    and "truthy (getConfig h ''typescript.documentSymbols.enable'')"
  shows "getDocumentSymbols im this document log =
     ((case collectSymbols im document
              (getNavigationTree (serviceOf im document) (getFilePath document)) None of
         [] \<Rightarrow> Inl TypeError
       | first # others \<Rightarrow> Inr (map (reparent (name first)) others)),
      log @ service_events im document @ [Call_getNavigationTree (getFilePath document)])"
  using assms
  by (simp add: getDocumentSymbols_def getLanguageServiceForDocument_eq call_getNavigationTree_def
      js_index_first slice1_def reparent_def split: list.splits)

lemma ex_plugin_host: "this_host (ex_plugin enabled) = Some (ex_host enabled)"
  by (simp add: ex_plugin_def onRegister_def)

lemma ex_host_flag: "truthy (getConfig (ex_host enabled) key) = enabled"
  by (simp add: ex_host_def truthy_def)

lemma ex_service_events:
  "service_events (ex_modules tree) (ex_document attributes) =
     [Call_getLanguageServiceForDocument (Some ''/App.svelte''),
      Call_openDocument \<lparr>languageId = [], item_text = ''let foo = 1'',
                          uri = ''file:///App.svelte.ts'', version = 0\<rparr>,
      Call_lockDocument ''file:///App.svelte.ts'']"
  by (simp add: service_events_def factory_events_def ex_modules_def ex_document_def)

lemma getDiagnostics_eq:
  assumes "this_host this = Some h"
    and "truthy (getConfig h ''typescript.diagnostics.enable'')"
  shows "getDiagnostics im this document log =
     (Inr (map (\<lambda>e. \<lparr>diag_range = convertRange im document (diag_start e) (diag_length e),
                      severity = Error,
                      source = (if getScriptKindFromAttributes im (getAttributes document) = TS
                                then ''ts'' else ''js''),
                      message = flattenDiagnosticMessageText im (messageText e) [CHR 0x0A]\<rparr>)
            (requested_diagnostics im document)),
      log @ service_events im document
        @ [Call_getSyntacticDiagnostics (getFilePath document)]
        @ (if getScriptKindFromAttributes im (getAttributes document) = TS
           then [Call_getSemanticDiagnostics (getFilePath document)] else []))"
  using assms
  by (simp add: getDiagnostics_def getLanguageServiceForDocument_eq
      call_getSyntacticDiagnostics_def call_getSemanticDiagnostics_def requested_diagnostics_def
      Let_def)

lemma getDiagnostics_cases:
  assumes "getDiagnostics im this document log = (Inr ds, log')"
  obtains "ds = []"
  | h where "this_host this = Some h" "truthy (getConfig h ''typescript.diagnostics.enable'')"
  using assms
  by (cases "this_host this") (auto simp: getDiagnostics_def split: if_splits)

lemma doHover_eq:
  assumes "this_host this = Some h"
    and "truthy (getConfig h ''typescript.hover.enable'')"
  shows "doHover im this document position log =
     ((case getQuickInfoAtPosition (serviceOf im document) (getFilePath document)
              (offsetAt document position) of
         None \<Rightarrow> Inr None
       | Some info \<Rightarrow>
           Inr (Some \<lparr>hover_range = convertRange im document (Some (span_start (textSpan info)))
                                      (Some (span_length (textSpan info))),
                      contents = \<lparr>language = ''ts'',
                                  ms_value = displayPartsToString im (displayParts info)\<rparr>\<rparr>)),
      log @ service_events im document
        @ [Call_getQuickInfoAtPosition (getFilePath document) (offsetAt document position)])"
  using assms
  by (simp add: doHover_def getLanguageServiceForDocument_eq call_getQuickInfoAtPosition_def
      Let_def split: option.splits)

lemma doHover_cases:
  assumes "doHover im this document position log = (Inr (Some hv), log')"
  obtains h where "this_host this = Some h" "truthy (getConfig h ''typescript.hover.enable'')"
  using assms
  by (cases "this_host this") (auto simp: doHover_def split: if_splits)

lemma getCompletions_eq:
  assumes "this_host this = Some h"
    and "truthy (getConfig h ''typescript.completions.enable'')"
  shows "getCompletions im this document position trigger log =
     (Inr (case getCompletionsAtPosition (serviceOf im document) (getFilePath document)
                 (offsetAt document position)
                 \<lparr>includeCompletionsForModuleExports = True, triggerCharacter = trigger\<rparr> of
             None \<Rightarrow> []
           | Some info \<Rightarrow>
               map (\<lambda>comp.
                     \<lparr>label = entry_name comp,
                      item_kind = scriptElementKindToCompletionItemKind im (entry_kind comp),
                      item_sortText = sortText comp,
                      commitCharacters = getCommitCharactersForScriptElement im (entry_kind comp),
                      preselect = isRecommended comp\<rparr>)
                 (entries info)),
      log @ service_events im document
        @ [Call_getCompletionsAtPosition (getFilePath document) (offsetAt document position)
             \<lparr>includeCompletionsForModuleExports = True, triggerCharacter = trigger\<rparr>,
           Call_console_log
             (getCompletionsAtPosition (serviceOf im document) (getFilePath document)
                (offsetAt document position)
                \<lparr>includeCompletionsForModuleExports = True, triggerCharacter = trigger\<rparr>)])"
  using assms
  by (simp add: getCompletions_def getLanguageServiceForDocument_eq
      call_getCompletionsAtPosition_def Let_def split: option.splits)

subsection \<open>Flag gating\<close>

text \<open>
  C3. Each of the four operations, on a registered plugin whose own configuration flag is
  false (or not set), returns the empty sequence (diagnostics, symbols, completions) or
  the absent result (hover) and hands back the call log as it received it: it made no
  call into the virtual-document factory, the service lookup or the engine.
\<close>

theorem disabled_flag_no_calls:
  "this_host this = Some h \<Longrightarrow>
     (\<not> truthy (getConfig h ''typescript.diagnostics.enable'') \<longrightarrow>
        getDiagnostics im this document log = (Inr [], log)) \<and>
     (\<not> truthy (getConfig h ''typescript.hover.enable'') \<longrightarrow>
        doHover im this document position log = (Inr None, log)) \<and>
     (\<not> truthy (getConfig h ''typescript.documentSymbols.enable'') \<longrightarrow>
        getDocumentSymbols im this document log = (Inr [], log)) \<and>
     (\<not> truthy (getConfig h ''typescript.completions.enable'') \<longrightarrow>
        getCompletions im this document position trigger log = (Inr [], log))"
  by (simp add: getDiagnostics_def doHover_def getDocumentSymbols_def getCompletions_def)

theorem disabled_flag_no_calls_witness:
  "getDiagnostics (ex_modules ex_tree_RAB) (ex_plugin False) (ex_document []) [] = (Inr [], []) \<and>
   doHover (ex_modules ex_tree_RAB) (ex_plugin False) (ex_document [])
     \<lparr>line = 0, character = 4\<rparr> [] = (Inr None, []) \<and>
   getDocumentSymbols (ex_modules ex_tree_RAB) (ex_plugin False) (ex_document []) [] = (Inr [], []) \<and>
   getCompletions (ex_modules ex_tree_RAB) (ex_plugin False) (ex_document [])
     \<lparr>line = 0, character = 4\<rparr> None [] = (Inr [], [])"
  using disabled_flag_no_calls [of "ex_plugin False" "ex_host False" "ex_modules ex_tree_RAB"
      "ex_document []" "[]" "\<lparr>line = 0, character = 4\<rparr>" None]
  by (simp add: ex_plugin_def ex_host_def onRegister_def truthy_def)

subsection \<open>The traversal of the navigation tree\<close>

text \<open>
  C5. In the pre-order traversal, a node with at least one span is emitted once, first,
  with the range from the start of its first span to the end of its last span and with
  the container it was handed (the parent's display name; none for the root of the
  call); a node with no span is not emitted; in both cases the children are visited in
  order, each with the node's own display name as container. Altogether the emitted
  sequence is the pre-order list of the nodes that have a span, each with its parent's
  display name.
\<close>

theorem collectSymbols_traversal:
  "(spans tree \<noteq> [] \<longrightarrow>
      collectSymbols im document tree container =
        emitted_record im document (tree, container)
          # concat (map (\<lambda>child. collectSymbols im document child (Some (nav_text tree)))
                      (children_of tree))) \<and>
   (spans tree = [] \<longrightarrow>
      collectSymbols im document tree container =
        concat (map (\<lambda>child. collectSymbols im document child (Some (nav_text tree)))
                  (children_of tree))) \<and>
   collectSymbols im document tree container =
     map (emitted_record im document) (filter has_span (preorder tree container))"
  using collectSymbols_step [of im document tree container]
    collectSymbols_preorder [of im document tree container]
  by simp

theorem collectSymbols_traversal_witness:
  "spans ex_tree_RAB \<noteq> [] \<and> spans ex_tree_spanless_root = [] \<and>
   collectSymbols (ex_modules ex_tree_RAB) (ex_document []) ex_tree_RAB None =
     [\<lparr>name = ''R'', kind = 2,
       location = \<lparr>loc_uri = ''file:///App.svelte'',
                    loc_range = \<lparr>range_start = \<lparr>line = 0, character = 0\<rparr>,
                                 range_end = \<lparr>line = 0, character = 9\<rparr>\<rparr>\<rparr>,
       containerName = None\<rparr>,
      \<lparr>name = ''A'', kind = 5,
       location = \<lparr>loc_uri = ''file:///App.svelte'',
                    loc_range = \<lparr>range_start = \<lparr>line = 0, character = 0\<rparr>,
                                 range_end = \<lparr>line = 0, character = 5\<rparr>\<rparr>\<rparr>,
       containerName = Some ''R''\<rparr>,
      \<lparr>name = ''B'', kind = 13,
       location = \<lparr>loc_uri = ''file:///App.svelte'',
                    loc_range = \<lparr>range_start = \<lparr>line = 0, character = 1\<rparr>,
                                 range_end = \<lparr>line = 0, character = 3\<rparr>\<rparr>\<rparr>,
       containerName = Some ''A''\<rparr>] \<and>
   collectSymbols (ex_modules ex_tree_RAB) (ex_document []) ex_tree_spanless_root None =
     [\<lparr>name = ''A'', kind = 5,
       location = \<lparr>loc_uri = ''file:///App.svelte'',
                    loc_range = \<lparr>range_start = \<lparr>line = 0, character = 0\<rparr>,
                                 range_end = \<lparr>line = 0, character = 5\<rparr>\<rparr>\<rparr>,
       containerName = Some ''R''\<rparr>,
      \<lparr>name = ''B'', kind = 13,
       location = \<lparr>loc_uri = ''file:///App.svelte'',
                    loc_range = \<lparr>range_start = \<lparr>line = 0, character = 1\<rparr>,
                                 range_end = \<lparr>line = 0, character = 3\<rparr>\<rparr>\<rparr>,
       containerName = Some ''A''\<rparr>]"
proof -
  have with_span: "filter has_span (preorder ex_tree_RAB None) = preorder ex_tree_RAB None"
    by (simp add: ex_tree_RAB_def has_span_def)
  have spanless: "filter has_span (preorder ex_tree_spanless_root None) =
      tl (preorder ex_tree_spanless_root None)"
    by (simp add: ex_tree_spanless_root_def has_span_def)
  show ?thesis
    using collectSymbols_traversal [of ex_tree_RAB "ex_modules ex_tree_RAB" "ex_document []" None]
      collectSymbols_traversal [of ex_tree_spanless_root "ex_modules ex_tree_RAB"
        "ex_document []" None]
    by (simp only: with_span spanless)
      (simp add: ex_tree_RAB_def ex_tree_spanless_root_def emitted_record_def ex_modules_def
        ex_document_def)
qed

subsection \<open>Document symbols\<close>

text \<open>
  C1. When the navigation tree has no span at any level and the symbols flag is enabled,
  no record is emitted and \<^verbatim>\<open>symbols[0].name\<close> raises: \<open>getDocumentSymbols\<close> ends in a
  \<open>TypeError\<close> instead of returning the empty sequence.
\<close>

theorem getDocumentSymbols_no_spans_raises:
  assumes "this_host this = Some h"
    and "truthy (getConfig h ''typescript.documentSymbols.enable'')"
    and "no_spans (getNavigationTree (serviceOf im document) (getFilePath document))"
  shows "getDocumentSymbols im this document log =
           (Inl TypeError,
            log @ service_events im document @ [Call_getNavigationTree (getFilePath document)])"
  using assms by (simp add: getDocumentSymbols_eq collectSymbols_no_spans)

theorem getDocumentSymbols_no_spans_raises_witness:
  "no_spans ex_tree_no_spans \<and>
   getDocumentSymbols (ex_modules ex_tree_no_spans) (ex_plugin True) (ex_document []) [] =
     (Inl TypeError,
      [Call_getLanguageServiceForDocument (Some ''/App.svelte''),
       Call_openDocument \<lparr>languageId = [], item_text = ''let foo = 1'',
                           uri = ''file:///App.svelte.ts'', version = 0\<rparr>,
       Call_lockDocument ''file:///App.svelte.ts'',
       Call_getNavigationTree (Some ''/App.svelte'')])"
  using getDocumentSymbols_no_spans_raises [of "ex_plugin True" "ex_host True"
      "ex_modules ex_tree_no_spans" "ex_document []" "[]"]
  by (simp add: ex_plugin_host ex_host_flag ex_service_events)
    (simp add: ex_modules_def ex_service_def ex_document_def ex_tree_no_spans_def)

text \<open>
  C4. With the symbols flag enabled, when the traversal emits \<open>first # others\<close>, the result
  has one record for each of \<open>others\<close>, in order, and none for \<open>first\<close>: a record whose
  container is the name of \<open>first\<close> gets the fixed container label \<open>script\<close> and is
  otherwise the same, and a record with any other container is returned as it is. For a
  root \<open>R\<close> that has a span, with one child \<open>A\<close> (one span) and one grandchild \<open>B\<close> (one
  span), the result is the record of \<open>A\<close> with the fixed label and the record of \<open>B\<close> with
  container \<open>A\<close>.
\<close>

theorem getDocumentSymbols_reparents:
  assumes "this_host this = Some h"
    and "truthy (getConfig h ''typescript.documentSymbols.enable'')"
  shows "(collectSymbols im document
            (getNavigationTree (serviceOf im document) (getFilePath document)) None
            = first # others \<longrightarrow>
          (\<exists>out. fst (getDocumentSymbols im this document log) = Inr out \<and>
             length out = length others \<and>
             (\<forall>i < length others.
                (containerName (others ! i) = Some (name first) \<longrightarrow>
                   out ! i = (others ! i)\<lparr>containerName := Some ''script''\<rparr>) \<and>
                (containerName (others ! i) \<noteq> Some (name first) \<longrightarrow>
                   out ! i = others ! i)))) \<and>
         (getNavigationTree (serviceOf im document) (getFilePath document)
            = NavigationTree ''R'' kindR (spanR # spansR)
                (Some [NavigationTree ''A'' kindA [spanA]
                         (Some [NavigationTree ''B'' kindB [spanB] None])]) \<longrightarrow>
          fst (getDocumentSymbols im this document log) =
            Inr [\<lparr>name = ''A'', kind = symbolKindFromString im kindA,
                   location = \<lparr>loc_uri = getURL document,
                     loc_range = \<lparr>range_start = positionAt document (span_start spanA),
                       range_end = positionAt document (span_start spanA + span_length spanA)\<rparr>\<rparr>,
                   containerName = Some ''script''\<rparr>,
                 \<lparr>name = ''B'', kind = symbolKindFromString im kindB,
                   location = \<lparr>loc_uri = getURL document,
                     loc_range = \<lparr>range_start = positionAt document (span_start spanB),
                       range_end = positionAt document (span_start spanB + span_length spanB)\<rparr>\<rparr>,
                   containerName = Some ''A''\<rparr>])"
proof (intro conjI impI)
  assume "collectSymbols im document
            (getNavigationTree (serviceOf im document) (getFilePath document)) None
            = first # others"
  then have "fst (getDocumentSymbols im this document log) =
      Inr (map (reparent (name first)) others)"
    using assms by (simp add: getDocumentSymbols_eq)
  then show "\<exists>out. fst (getDocumentSymbols im this document log) = Inr out \<and>
             length out = length others \<and>
             (\<forall>i < length others.
                (containerName (others ! i) = Some (name first) \<longrightarrow>
                   out ! i = (others ! i)\<lparr>containerName := Some ''script''\<rparr>) \<and>
                (containerName (others ! i) \<noteq> Some (name first) \<longrightarrow>
                   out ! i = others ! i))"
    by (simp add: reparent_def)
next
  assume "getNavigationTree (serviceOf im document) (getFilePath document)
            = NavigationTree ''R'' kindR (spanR # spansR)
                (Some [NavigationTree ''A'' kindA [spanA]
                         (Some [NavigationTree ''B'' kindB [spanB] None])])"
  then show "fst (getDocumentSymbols im this document log) =
            Inr [\<lparr>name = ''A'', kind = symbolKindFromString im kindA,
                   location = \<lparr>loc_uri = getURL document,
                     loc_range = \<lparr>range_start = positionAt document (span_start spanA),
                       range_end = positionAt document (span_start spanA + span_length spanA)\<rparr>\<rparr>,
                   containerName = Some ''script''\<rparr>,
                 \<lparr>name = ''B'', kind = symbolKindFromString im kindB,
                   location = \<lparr>loc_uri = getURL document,
                     loc_range = \<lparr>range_start = positionAt document (span_start spanB),
                       range_end = positionAt document (span_start spanB + span_length spanB)\<rparr>\<rparr>,
                   containerName = Some ''A''\<rparr>]"
    using assms
    by (simp add: getDocumentSymbols_eq collectSymbols_preorder has_span_def emitted_record_def
        reparent_def del: collectSymbols.simps)
qed

theorem getDocumentSymbols_reparents_witness:
  "fst (getDocumentSymbols (ex_modules ex_tree_RAB) (ex_plugin True) (ex_document []) []) =
     Inr [\<lparr>name = ''A'', kind = 5,
            location = \<lparr>loc_uri = ''file:///App.svelte'',
                         loc_range = \<lparr>range_start = \<lparr>line = 0, character = 0\<rparr>,
                                      range_end = \<lparr>line = 0, character = 5\<rparr>\<rparr>\<rparr>,
            containerName = Some ''script''\<rparr>,
          \<lparr>name = ''B'', kind = 13,
            location = \<lparr>loc_uri = ''file:///App.svelte'',
                         loc_range = \<lparr>range_start = \<lparr>line = 0, character = 1\<rparr>,
                                      range_end = \<lparr>line = 0, character = 3\<rparr>\<rparr>\<rparr>,
            containerName = Some ''A''\<rparr>]"
  using getDocumentSymbols_reparents [of "ex_plugin True" "ex_host True" "ex_modules ex_tree_RAB"
      "ex_document []" _ _ "[]" "''module''" "\<lparr>span_start = 0, span_length = 9\<rparr>" "[]"
      "''class''" "\<lparr>span_start = 0, span_length = 5\<rparr>" "''method''"
      "\<lparr>span_start = 1, span_length = 2\<rparr>"]
  by (simp add: ex_plugin_host ex_host_flag)
    (simp add: ex_modules_def ex_service_def ex_document_def ex_tree_RAB_def)

text \<open>
  C9. With the symbols flag enabled, whenever the traversal emits at least one record the
  result is the emitted sequence without its first record (names, kinds and locations
  are those of the remaining records, in order), whatever that first record is. When the
  root has no span and its only child \<open>A\<close> has one, the only emitted record is that of
  \<open>A\<close>, and the result is empty: the child's symbol is dropped.
\<close>

theorem getDocumentSymbols_drops_first:
  assumes "this_host this = Some h"
    and "truthy (getConfig h ''typescript.documentSymbols.enable'')"
  shows "(collectSymbols im document
            (getNavigationTree (serviceOf im document) (getFilePath document)) None \<noteq> [] \<longrightarrow>
          (\<exists>out. fst (getDocumentSymbols im this document log) = Inr out \<and>
             map (\<lambda>s. (name s, kind s, location s)) out =
               tl (map (\<lambda>s. (name s, kind s, location s))
                     (collectSymbols im document
                        (getNavigationTree (serviceOf im document) (getFilePath document)) None)))) \<and>
         (getNavigationTree (serviceOf im document) (getFilePath document)
            = NavigationTree textR kindR [] (Some [NavigationTree textA kindA (spanA # spansA) None]) \<longrightarrow>
          collectSymbols im document
            (getNavigationTree (serviceOf im document) (getFilePath document)) None =
            [emitted_record im document
               (NavigationTree textA kindA (spanA # spansA) None, Some textR)] \<and>
          fst (getDocumentSymbols im this document log) = Inr [])"
proof (intro conjI impI)
  let ?emitted = "collectSymbols im document
            (getNavigationTree (serviceOf im document) (getFilePath document)) None"
  assume "?emitted \<noteq> []"
  then obtain first others where emitted: "?emitted = first # others"
    by (cases ?emitted) auto
  have same: "(\<lambda>s. (name s, kind s, location s)) \<circ> reparent (name first) =
      (\<lambda>s. (name s, kind s, location s))"
    by (rule ext) (simp add: reparent_def)
  have "fst (getDocumentSymbols im this document log) = Inr (map (reparent (name first)) others)"
    using assms emitted by (simp add: getDocumentSymbols_eq)
  then show "\<exists>out. fst (getDocumentSymbols im this document log) = Inr out \<and>
             map (\<lambda>s. (name s, kind s, location s)) out =
               tl (map (\<lambda>s. (name s, kind s, location s)) ?emitted)"
    using emitted same by simp
next
  assume tree: "getNavigationTree (serviceOf im document) (getFilePath document)
            = NavigationTree textR kindR [] (Some [NavigationTree textA kindA (spanA # spansA) None])"
  show emitted: "collectSymbols im document
            (getNavigationTree (serviceOf im document) (getFilePath document)) None =
            [emitted_record im document
               (NavigationTree textA kindA (spanA # spansA) None, Some textR)]"
    by (simp add: tree collectSymbols_preorder has_span_def del: collectSymbols.simps)
  show "fst (getDocumentSymbols im this document log) = Inr []"
    using assms by (simp add: getDocumentSymbols_eq emitted del: collectSymbols.simps)
qed

theorem getDocumentSymbols_drops_first_witness:
  "collectSymbols (ex_modules ex_tree_spanless_root) (ex_document []) ex_tree_spanless_root None \<noteq> [] \<and>
   (\<exists>out. fst (getDocumentSymbols (ex_modules ex_tree_spanless_root) (ex_plugin True)
                 (ex_document []) []) = Inr out \<and>
      map name out = [''B''])"
proof -
  have emitted: "map (\<lambda>s. (name s, kind s, location s))
      (collectSymbols (ex_modules ex_tree_spanless_root) (ex_document []) ex_tree_spanless_root None) =
      [(''A'', 5, \<lparr>loc_uri = ''file:///App.svelte'',
                     loc_range = \<lparr>range_start = \<lparr>line = 0, character = 0\<rparr>,
                                  range_end = \<lparr>line = 0, character = 5\<rparr>\<rparr>\<rparr>),
       (''B'', 13, \<lparr>loc_uri = ''file:///App.svelte'',
                     loc_range = \<lparr>range_start = \<lparr>line = 0, character = 1\<rparr>,
                                  range_end = \<lparr>line = 0, character = 3\<rparr>\<rparr>\<rparr>)]"
    by (simp add: collectSymbols_preorder has_span_def emitted_record_def ex_tree_spanless_root_def
        ex_modules_def ex_document_def del: collectSymbols.simps)
  have tree: "getNavigationTree (serviceOf (ex_modules ex_tree_spanless_root) (ex_document []))
      (getFilePath (ex_document [])) = ex_tree_spanless_root"
    by (simp add: ex_modules_def ex_service_def)
  from emitted have nonempty: "collectSymbols (ex_modules ex_tree_spanless_root) (ex_document [])
      ex_tree_spanless_root None \<noteq> []"
    by auto
  have "\<exists>out. fst (getDocumentSymbols (ex_modules ex_tree_spanless_root) (ex_plugin True)
                 (ex_document []) []) = Inr out \<and>
      map (\<lambda>s. (name s, kind s, location s)) out =
      tl (map (\<lambda>s. (name s, kind s, location s))
        (collectSymbols (ex_modules ex_tree_spanless_root) (ex_document []) ex_tree_spanless_root None))"
    using getDocumentSymbols_drops_first [of "ex_plugin True" "ex_host True"
        "ex_modules ex_tree_spanless_root" "ex_document []" "[]", THEN conjunct1] nonempty
    by (simp add: ex_plugin_host ex_host_flag tree del: collectSymbols.simps)
  then obtain out where out: "fst (getDocumentSymbols (ex_modules ex_tree_spanless_root) (ex_plugin True)
                 (ex_document []) []) = Inr out"
    and names: "map (\<lambda>s. (name s, kind s, location s)) out =
      tl (map (\<lambda>s. (name s, kind s, location s))
        (collectSymbols (ex_modules ex_tree_spanless_root) (ex_document []) ex_tree_spanless_root None))"
    by blast
  from names have B: "map name out = [''B'']"
    unfolding emitted by (cases out) auto
  show ?thesis
  proof (intro conjI exI)
    show "collectSymbols (ex_modules ex_tree_spanless_root) (ex_document [])
      ex_tree_spanless_root None \<noteq> []"
      by (rule nonempty)
    show "fst (getDocumentSymbols (ex_modules ex_tree_spanless_root) (ex_plugin True)
                 (ex_document []) []) = Inr out"
      by (rule out)
    show "map name out = [''B'']"
      by (rule B)
  qed
qed


subsection \<open>Diagnostics\<close>

text \<open>
  C6. With the diagnostics flag enabled, \<open>getDiagnostics\<close> looks the service up, requests
  the syntactic diagnostics, and requests the semantic diagnostics after them exactly
  when the script kind read from the document's attributes is \<open>TS\<close>; no other engine call
  is made. The ranges and messages of the result are those of the syntactic diagnostics
  in the engine's order, followed (for \<open>TS\<close>) by those of the semantic diagnostics in the
  engine's order.
\<close>

theorem getDiagnostics_requests:
  assumes "this_host this = Some h"
    and "truthy (getConfig h ''typescript.diagnostics.enable'')"
  shows "\<exists>ds. getDiagnostics im this document log =
           (Inr ds,
            log @ service_events im document
              @ [Call_getSyntacticDiagnostics (getFilePath document)]
              @ (if getScriptKindFromAttributes im (getAttributes document) = TS
                 then [Call_getSemanticDiagnostics (getFilePath document)] else []))
         \<and> map (\<lambda>d. (diag_range d, message d)) ds =
             map (\<lambda>e. (convertRange im document (diag_start e) (diag_length e),
                        flattenDiagnosticMessageText im (messageText e) [CHR 0x0A]))
               (getSyntacticDiagnostics (serviceOf im document) (getFilePath document))
             @ (if getScriptKindFromAttributes im (getAttributes document) = TS
                then map (\<lambda>e. (convertRange im document (diag_start e) (diag_length e),
                                flattenDiagnosticMessageText im (messageText e) [CHR 0x0A]))
                       (getSemanticDiagnostics (serviceOf im document) (getFilePath document))
                else [])"
  using assms by (simp add: getDiagnostics_eq requested_diagnostics_def comp_def)

theorem getDiagnostics_requests_witness:
  "(\<exists>ds. getDiagnostics (ex_modules ex_tree_RAB) (ex_plugin True)
            (ex_document [(''lang'', ''typescript'')]) [] =
           (Inr ds,
            [Call_getLanguageServiceForDocument (Some ''/App.svelte''),
             Call_openDocument \<lparr>languageId = [], item_text = ''let foo = 1'',
                                 uri = ''file:///App.svelte.ts'', version = 0\<rparr>,
             Call_lockDocument ''file:///App.svelte.ts'',
             Call_getSyntacticDiagnostics (Some ''/App.svelte''),
             Call_getSemanticDiagnostics (Some ''/App.svelte'')])
         \<and> map (\<lambda>d. (diag_range d, message d)) ds =
             [(\<lparr>range_start = \<lparr>line = 0, character = 0\<rparr>,
                range_end = \<lparr>line = 0, character = 1\<rparr>\<rparr>, ''; expected''),
              (\<lparr>range_start = \<lparr>line = 0, character = 2\<rparr>,
                range_end = \<lparr>line = 0, character = 5\<rparr>\<rparr>, ''no such name'')]) \<and>
   (\<exists>ds. getDiagnostics (ex_modules ex_tree_RAB) (ex_plugin True) (ex_document []) [] =
           (Inr ds,
            [Call_getLanguageServiceForDocument (Some ''/App.svelte''),
             Call_openDocument \<lparr>languageId = [], item_text = ''let foo = 1'',
                                 uri = ''file:///App.svelte.ts'', version = 0\<rparr>,
             Call_lockDocument ''file:///App.svelte.ts'',
             Call_getSyntacticDiagnostics (Some ''/App.svelte'')])
         \<and> map (\<lambda>d. (diag_range d, message d)) ds =
             [(\<lparr>range_start = \<lparr>line = 0, character = 0\<rparr>,
                range_end = \<lparr>line = 0, character = 1\<rparr>\<rparr>, ''; expected'')])"
  using getDiagnostics_requests [of "ex_plugin True" "ex_host True" "ex_modules ex_tree_RAB"
      "ex_document [(''lang'', ''typescript'')]" "[]"]
    getDiagnostics_requests [of "ex_plugin True" "ex_host True" "ex_modules ex_tree_RAB"
      "ex_document []" "[]"]
  by (simp add: ex_plugin_host ex_host_flag ex_service_events)
    (simp add: ex_modules_def ex_service_def ex_document_def)

text \<open>
  C2, as the code has it. Every diagnostic that \<open>getDiagnostics\<close> returns has severity
  \<open>Error\<close>, whatever the category of the engine diagnostic it comes from; its source is
  \<open>ts\<close> when the script kind is \<open>TS\<close> and \<open>js\<close> otherwise; and its message is the
  flattened message text (with a newline as separator) of the engine diagnostic at the
  same index of the requested diagnostics.
\<close>

theorem getDiagnostics_severity_source:
  assumes "getDiagnostics im this document log = (Inr ds, log')"
    and "i < length ds"
  shows "severity (ds ! i) = Error \<and>
         source (ds ! i) =
           (if getScriptKindFromAttributes im (getAttributes document) = TS then ''ts'' else ''js'') \<and>
         i < length (requested_diagnostics im document) \<and>
         message (ds ! i) =
           flattenDiagnosticMessageText im (messageText (requested_diagnostics im document ! i))
             [CHR 0x0A]"
  using assms(1)
proof (cases rule: getDiagnostics_cases)
  case 1
  with assms(2) show ?thesis by simp
next
  case (2 h)
  let ?f = "\<lambda>e. \<lparr>diag_range = convertRange im document (diag_start e) (diag_length e),
                      severity = Error,
                      source = (if getScriptKindFromAttributes im (getAttributes document) = TS
                                then ''ts'' else ''js''),
                      message = flattenDiagnosticMessageText im (messageText e) [CHR 0x0A]\<rparr>"
  from getDiagnostics_eq [OF 2, of im document log] assms(1)
  have ds: "ds = map ?f (requested_diagnostics im document)"
    by simp
  with assms(2) have i: "i < length (requested_diagnostics im document)"
    by simp
  then have "ds ! i = ?f (requested_diagnostics im document ! i)"
    unfolding ds by (rule nth_map)
  with i show ?thesis by simp
qed

theorem getDiagnostics_severity_source_witness:
  "getScriptKindFromAttributes (ex_modules ex_tree_RAB) (getAttributes (ex_document [])) = JS \<and>
   category (requested_diagnostics (ex_modules ex_tree_RAB) (ex_document []) ! 0) = CategoryWarning \<and>
   fst (getDiagnostics (ex_modules ex_tree_RAB) (ex_plugin True) (ex_document []) []) =
     Inr [\<lparr>diag_range = \<lparr>range_start = \<lparr>line = 0, character = 0\<rparr>,
                           range_end = \<lparr>line = 0, character = 1\<rparr>\<rparr>,
            severity = Error, source = ''js'', message = ''; expected''\<rparr>] \<and>
   severity \<lparr>diag_range = \<lparr>range_start = \<lparr>line = 0, character = 0\<rparr>,
                           range_end = \<lparr>line = 0, character = 1\<rparr>\<rparr>,
            severity = Error, source = ''js'', message = ''; expected''\<rparr> = Error"
proof -
  have run: "getDiagnostics (ex_modules ex_tree_RAB) (ex_plugin True) (ex_document []) [] =
     (Inr [\<lparr>diag_range = \<lparr>range_start = \<lparr>line = 0, character = 0\<rparr>,
                           range_end = \<lparr>line = 0, character = 1\<rparr>\<rparr>,
            severity = Error, source = ''js'', message = ''; expected''\<rparr>],
      [Call_getLanguageServiceForDocument (Some ''/App.svelte''),
       Call_openDocument \<lparr>languageId = [], item_text = ''let foo = 1'',
                           uri = ''file:///App.svelte.ts'', version = 0\<rparr>,
       Call_lockDocument ''file:///App.svelte.ts'',
       Call_getSyntacticDiagnostics (Some ''/App.svelte'')])"
    by (simp add: getDiagnostics_eq ex_plugin_host ex_host_flag ex_service_events)
      (simp add: requested_diagnostics_def ex_modules_def ex_service_def ex_document_def)
  show ?thesis
    using getDiagnostics_severity_source [OF run, of 0] run
    by (simp add: requested_diagnostics_def ex_modules_def ex_service_def ex_document_def)
qed

text \<open>
  C2 as stated fails: for a document of script kind \<open>TS\<close> the source of a returned
  diagnostic is \<open>ts\<close>, not \<open>typed\<close>.
\<close>

theorem getDiagnostics_source_counterexample:
  "getScriptKindFromAttributes (ex_modules ex_tree_RAB)
     (getAttributes (ex_document [(''lang'', ''typescript'')])) = TS \<and>
   fst (getDiagnostics (ex_modules ex_tree_RAB) (ex_plugin True)
          (ex_document [(''lang'', ''typescript'')]) []) =
     Inr [\<lparr>diag_range = \<lparr>range_start = \<lparr>line = 0, character = 0\<rparr>,
                           range_end = \<lparr>line = 0, character = 1\<rparr>\<rparr>,
            severity = Error, source = ''ts'', message = ''; expected''\<rparr>,
          \<lparr>diag_range = \<lparr>range_start = \<lparr>line = 0, character = 2\<rparr>,
                           range_end = \<lparr>line = 0, character = 5\<rparr>\<rparr>,
            severity = Error, source = ''ts'', message = ''no such name''\<rparr>] \<and>
   source \<lparr>diag_range = \<lparr>range_start = \<lparr>line = 0, character = 0\<rparr>,
                           range_end = \<lparr>line = 0, character = 1\<rparr>\<rparr>,
            severity = Error, source = ''ts'', message = ''; expected''\<rparr> \<noteq> ''typed''"
  by (simp add: getDiagnostics_eq ex_plugin_host ex_host_flag)
    (simp add: requested_diagnostics_def ex_modules_def ex_service_def ex_document_def)

subsection \<open>Hover\<close>

text \<open>
  C7. With the hover flag enabled, \<open>doHover\<close> looks the service up and asks the engine for
  the quick info at \<open>offsetAt\<close> of the position, and makes no other engine call. When the
  engine has none, the result is absent, and no error is raised; otherwise the result is
  a hover whose range is \<open>convertRange\<close> of the info's text span and whose content value is
  \<open>displayPartsToString\<close> of the info's display parts.
\<close>

theorem doHover_result:
  assumes "this_host this = Some h"
    and "truthy (getConfig h ''typescript.hover.enable'')"
  shows "snd (doHover im this document position log) =
           log @ service_events im document
             @ [Call_getQuickInfoAtPosition (getFilePath document) (offsetAt document position)] \<and>
         (getQuickInfoAtPosition (serviceOf im document) (getFilePath document)
              (offsetAt document position) = None \<longrightarrow>
            fst (doHover im this document position log) = Inr None) \<and>
         (\<forall>info. getQuickInfoAtPosition (serviceOf im document) (getFilePath document)
              (offsetAt document position) = Some info \<longrightarrow>
            (\<exists>hv. fst (doHover im this document position log) = Inr (Some hv) \<and>
               hover_range hv = convertRange im document (Some (span_start (textSpan info)))
                                  (Some (span_length (textSpan info))) \<and>
               ms_value (contents hv) = displayPartsToString im (displayParts info)))"
  using assms by (simp add: doHover_eq)

theorem doHover_result_witness:
  "doHover (ex_modules ex_tree_RAB) (ex_plugin True) (ex_document []) \<lparr>line = 0, character = 5\<rparr> [] =
     (Inr None,
      [Call_getLanguageServiceForDocument (Some ''/App.svelte''),
       Call_openDocument \<lparr>languageId = [], item_text = ''let foo = 1'',
                           uri = ''file:///App.svelte.ts'', version = 0\<rparr>,
       Call_lockDocument ''file:///App.svelte.ts'',
       Call_getQuickInfoAtPosition (Some ''/App.svelte'') 5]) \<and>
   (\<exists>hv. doHover (ex_modules ex_tree_RAB) (ex_plugin True) (ex_document [])
            \<lparr>line = 0, character = 4\<rparr> [] =
      (Inr (Some hv),
       [Call_getLanguageServiceForDocument (Some ''/App.svelte''),
        Call_openDocument \<lparr>languageId = [], item_text = ''let foo = 1'',
                            uri = ''file:///App.svelte.ts'', version = 0\<rparr>,
        Call_lockDocument ''file:///App.svelte.ts'',
        Call_getQuickInfoAtPosition (Some ''/App.svelte'') 4]) \<and>
      hover_range hv = \<lparr>range_start = \<lparr>line = 0, character = 4\<rparr>,
                         range_end = \<lparr>line = 0, character = 7\<rparr>\<rparr> \<and>
      ms_value (contents hv) = ''let foo'')"
proof -
  have absent: "getQuickInfoAtPosition (serviceOf (ex_modules ex_tree_RAB) (ex_document []))
      (getFilePath (ex_document [])) (offsetAt (ex_document []) \<lparr>line = 0, character = 5\<rparr>) = None"
    by (simp add: ex_modules_def ex_service_def ex_document_def)
  have present: "getQuickInfoAtPosition (serviceOf (ex_modules ex_tree_RAB) (ex_document []))
      (getFilePath (ex_document [])) (offsetAt (ex_document []) \<lparr>line = 0, character = 4\<rparr>) =
      Some \<lparr>textSpan = \<lparr>span_start = 4, span_length = 3\<rparr>,
            displayParts = Some [\<lparr>part_text = ''let '', part_kind = ''keyword''\<rparr>,
                                 \<lparr>part_text = ''foo'', part_kind = ''localName''\<rparr>]\<rparr>"
    by (simp add: ex_modules_def ex_service_def ex_document_def)
  have offsets: "offsetAt (ex_document []) \<lparr>line = 0, character = 5\<rparr> = 5"
    "offsetAt (ex_document []) \<lparr>line = 0, character = 4\<rparr> = 4"
    "getFilePath (ex_document []) = Some ''/App.svelte''"
    by (simp_all add: ex_document_def)
  have converted: "convertRange (ex_modules ex_tree_RAB) (ex_document []) (Some 4) (Some 3) =
      \<lparr>range_start = \<lparr>line = 0, character = 4\<rparr>, range_end = \<lparr>line = 0, character = 7\<rparr>\<rparr>"
    "displayPartsToString (ex_modules ex_tree_RAB)
       (Some [\<lparr>part_text = ''let '', part_kind = ''keyword''\<rparr>,
              \<lparr>part_text = ''foo'', part_kind = ''localName''\<rparr>]) = ''let foo''"
    by (simp_all add: ex_modules_def ex_document_def)
  show ?thesis
    using doHover_result [of "ex_plugin True" "ex_host True" "ex_modules ex_tree_RAB"
        "ex_document []" "\<lparr>line = 0, character = 5\<rparr>" "[]"]
      doHover_result [of "ex_plugin True" "ex_host True" "ex_modules ex_tree_RAB"
        "ex_document []" "\<lparr>line = 0, character = 4\<rparr>" "[]"]
    by (simp add: ex_plugin_host ex_host_flag absent present ex_service_events prod_eq_iff)
      (auto simp add: offsets converted)
qed

text \<open>
  C10. Whenever \<open>doHover\<close> returns a hover, for any document, position and script kind,
  the language of its content is \<open>ts\<close>.
\<close>

theorem doHover_language:
  assumes "doHover im this document position log = (Inr (Some hv), log')"
  shows "language (contents hv) = ''ts''"
  using assms
proof (cases rule: doHover_cases)
  case (1 h)
  from doHover_eq [OF 1, of im document position log] assms show ?thesis
    by (auto split: option.splits)
qed

theorem doHover_language_witness:
  "getScriptKindFromAttributes (ex_modules ex_tree_RAB) (getAttributes (ex_document [])) = JS \<and>
   fst (doHover (ex_modules ex_tree_RAB) (ex_plugin True) (ex_document [])
          \<lparr>line = 0, character = 4\<rparr> []) =
     Inr (Some \<lparr>hover_range = \<lparr>range_start = \<lparr>line = 0, character = 4\<rparr>,
                                range_end = \<lparr>line = 0, character = 7\<rparr>\<rparr>,
                contents = \<lparr>language = ''ts'', ms_value = ''let foo''\<rparr>\<rparr>) \<and>
   language (contents \<lparr>hover_range = \<lparr>range_start = \<lparr>line = 0, character = 4\<rparr>,
                                range_end = \<lparr>line = 0, character = 7\<rparr>\<rparr>,
                contents = \<lparr>language = ''ts'', ms_value = ''let foo''\<rparr>\<rparr>) = ''ts''"
proof -
  have run: "doHover (ex_modules ex_tree_RAB) (ex_plugin True) (ex_document [])
          \<lparr>line = 0, character = 4\<rparr> [] =
     (Inr (Some \<lparr>hover_range = \<lparr>range_start = \<lparr>line = 0, character = 4\<rparr>,
                                range_end = \<lparr>line = 0, character = 7\<rparr>\<rparr>,
                contents = \<lparr>language = ''ts'', ms_value = ''let foo''\<rparr>\<rparr>),
      [Call_getLanguageServiceForDocument (Some ''/App.svelte''),
       Call_openDocument \<lparr>languageId = [], item_text = ''let foo = 1'',
                           uri = ''file:///App.svelte.ts'', version = 0\<rparr>,
       Call_lockDocument ''file:///App.svelte.ts'',
       Call_getQuickInfoAtPosition (Some ''/App.svelte'') 4])"
    by (simp add: doHover_eq ex_plugin_host ex_host_flag ex_service_events)
      (simp add: ex_modules_def ex_service_def ex_document_def)
  show ?thesis
    using doHover_language [OF run] run
    by (simp add: ex_modules_def ex_document_def)
qed

subsection \<open>Completions\<close>

text \<open>
  C8. With the completions flag enabled, \<open>getCompletions\<close> looks the service up and asks
  the engine for the completions at \<open>offsetAt\<close> of the position, with module exports
  included and the trigger character as it was given (then logs the answer to the
  console). An absent answer gives the empty sequence; otherwise each entry, in order,
  gives an item with the entry's name as label, the translated kind, the entry's sort
  text, the commit characters of the entry's kind and the entry's recommended flag as
  preselect.
\<close>

theorem getCompletions_result:
  assumes "this_host this = Some h"
    and "truthy (getConfig h ''typescript.completions.enable'')"
  shows "snd (getCompletions im this document position trigger log) =
           log @ service_events im document
             @ [Call_getCompletionsAtPosition (getFilePath document) (offsetAt document position)
                  \<lparr>includeCompletionsForModuleExports = True, triggerCharacter = trigger\<rparr>,
                Call_console_log
                  (getCompletionsAtPosition (serviceOf im document) (getFilePath document)
                     (offsetAt document position)
                     \<lparr>includeCompletionsForModuleExports = True, triggerCharacter = trigger\<rparr>)] \<and>
         (getCompletionsAtPosition (serviceOf im document) (getFilePath document)
              (offsetAt document position)
              \<lparr>includeCompletionsForModuleExports = True, triggerCharacter = trigger\<rparr> = None \<longrightarrow>
            fst (getCompletions im this document position trigger log) = Inr []) \<and>
         (\<forall>info. getCompletionsAtPosition (serviceOf im document) (getFilePath document)
              (offsetAt document position)
              \<lparr>includeCompletionsForModuleExports = True, triggerCharacter = trigger\<rparr> = Some info \<longrightarrow>
            fst (getCompletions im this document position trigger log) =
              Inr (map (\<lambda>comp.
                     \<lparr>label = entry_name comp,
                      item_kind = scriptElementKindToCompletionItemKind im (entry_kind comp),
                      item_sortText = sortText comp,
                      commitCharacters = getCommitCharactersForScriptElement im (entry_kind comp),
                      preselect = isRecommended comp\<rparr>)
                   (entries info)))"
  using assms by (simp add: getCompletions_eq)

theorem getCompletions_result_witness:
  "getCompletions (ex_modules ex_tree_RAB) (ex_plugin True) (ex_document [])
     \<lparr>line = 0, character = 5\<rparr> None [] =
     (Inr [],
      [Call_getLanguageServiceForDocument (Some ''/App.svelte''),
       Call_openDocument \<lparr>languageId = [], item_text = ''let foo = 1'',
                           uri = ''file:///App.svelte.ts'', version = 0\<rparr>,
       Call_lockDocument ''file:///App.svelte.ts'',
       Call_getCompletionsAtPosition (Some ''/App.svelte'') 5
         \<lparr>includeCompletionsForModuleExports = True, triggerCharacter = None\<rparr>,
       Call_console_log None]) \<and>
   getCompletions (ex_modules ex_tree_RAB) (ex_plugin True) (ex_document [])
     \<lparr>line = 0, character = 4\<rparr> (Some ''.'') [] =
     (Inr [\<lparr>label = ''foo'', item_kind = 2, item_sortText = ''0'',
             commitCharacters = Some [''.'', '','', ''(''], preselect = Some True\<rparr>],
      [Call_getLanguageServiceForDocument (Some ''/App.svelte''),
       Call_openDocument \<lparr>languageId = [], item_text = ''let foo = 1'',
                           uri = ''file:///App.svelte.ts'', version = 0\<rparr>,
       Call_lockDocument ''file:///App.svelte.ts'',
       Call_getCompletionsAtPosition (Some ''/App.svelte'') 4
         \<lparr>includeCompletionsForModuleExports = True, triggerCharacter = Some ''.''\<rparr>,
       Call_console_log
         (Some \<lparr>entries = [\<lparr>entry_name = ''foo'', entry_kind = ''method'', sortText = ''0'',
                              isRecommended = Some True\<rparr>]\<rparr>)])"
proof -
  have absent: "getCompletionsAtPosition (serviceOf (ex_modules ex_tree_RAB) (ex_document []))
      (getFilePath (ex_document [])) (offsetAt (ex_document []) \<lparr>line = 0, character = 5\<rparr>)
      \<lparr>includeCompletionsForModuleExports = True, triggerCharacter = None\<rparr> = None"
    by (simp add: ex_modules_def ex_service_def ex_document_def)
  have present: "getCompletionsAtPosition (serviceOf (ex_modules ex_tree_RAB) (ex_document []))
      (getFilePath (ex_document [])) (offsetAt (ex_document []) \<lparr>line = 0, character = 4\<rparr>)
      \<lparr>includeCompletionsForModuleExports = True, triggerCharacter = Some ''.''\<rparr> =
      Some \<lparr>entries = [\<lparr>entry_name = ''foo'', entry_kind = ''method'', sortText = ''0'',
                          isRecommended = Some True\<rparr>]\<rparr>"
    by (simp add: ex_modules_def ex_service_def ex_document_def)
  have offsets: "offsetAt (ex_document []) \<lparr>line = 0, character = 5\<rparr> = 5"
    "offsetAt (ex_document []) \<lparr>line = 0, character = 4\<rparr> = 4"
    "getFilePath (ex_document []) = Some ''/App.svelte''"
    by (simp_all add: ex_document_def)
  have mapped: "scriptElementKindToCompletionItemKind (ex_modules ex_tree_RAB) ''method'' = 2"
    "getCommitCharactersForScriptElement (ex_modules ex_tree_RAB) ''method'' =
       Some [''.'', '','', ''('']"
    by (simp_all add: ex_modules_def)
  show ?thesis
    using getCompletions_result [of "ex_plugin True" "ex_host True" "ex_modules ex_tree_RAB"
        "ex_document []" "\<lparr>line = 0, character = 5\<rparr>" None "[]"]
      getCompletions_result [of "ex_plugin True" "ex_host True" "ex_modules ex_tree_RAB"
        "ex_document []" "\<lparr>line = 0, character = 4\<rparr>" "Some ''.''" "[]"]
    by (simp add: ex_plugin_host ex_host_flag absent present ex_service_events prod_eq_iff)
      (simp add: offsets mapped)
qed

end
